theory Spec2Isabelle
  imports Complex_Main "HOL-Library.Word"
begin

section \<open>Data model\<close>

text \<open>
  An eigenvalue voxel is the triple \<open>(\<lambda>1, \<lambda>2, \<lambda>3)\<close>; an eigenvalue volume is the dense grid
  of voxels, flattened. The mask image defaults to \<^verbatim>\<open>Image< unsigned char, 3 >\<close>, so a mask
  pixel is an 8-bit word. A null mask pointer is \<open>None\<close>.
\<close>

type_synonym EigenvalueVoxel = "real \<times> real \<times> real"
type_synonym EigenvalueVolume = "EigenvalueVoxel list"
type_synonym MaskPixelType = "8 word"
type_synonym MaskImage = "MaskPixelType list"

text \<open>
  Modelled from the spec: the enumeration \<^verbatim>\<open>Superclass::EigenValueOrderType\<close> is declared in
  itkEigenToScalarImageFilter.h, which is not among the sources. The header under study
  names its value \<^verbatim>\<open>OrderByMagnitude\<close>; the spec describes it as "sorted by ascending
  magnitude". The second constructor stands for every other ordering.
\<close>

datatype EigenValueOrderType = OrderByValue | OrderByMagnitude

text \<open>
  Modelled from the spec: \<^verbatim>\<open>KrcahImplementationType\<close> is declared by the parameter-estimation
  filter (not among the sources). The spec's CalibrationStrategy is two-valued:
  "implementation heuristic" versus "journal-article constants".
\<close>

datatype KrcahImplementationType = UseImplementationParameters | UseJournalParameters

text \<open>
  Modelled from the spec: Polarity is "a two-valued selector, enhance bright structures vs
  enhance dark structures".
\<close>

datatype Polarity = EnhanceBrightObjects | EnhanceDarkObjects

subsection \<open>The two sub-filters\<close>

text \<open>
  Modelled from the spec: the class \<^verbatim>\<open>KrcahEigenToScalarParameterEstimationImageFilter\<close> is
  not among the sources. Its state is what the header under study reads and writes through
  it (mask image, background value, parameter set) together with the three calibration
  constants it produces.
\<close>

record ParameterEstimationFilter =
  est_MaskImage :: "MaskImage option"
  est_BackgroundValue :: MaskPixelType
  est_ParameterSet :: KrcahImplementationType
  est_Alpha :: real
  est_Beta :: real
  est_Gamma :: real

text \<open>
  Modelled from the spec: the class \<^verbatim>\<open>KrcahEigenToScalarFunctorImageFilter\<close> is not among the
  sources. Its state is the three calibration constants the functor consumes and the
  polarity.
\<close>

record UnaryFunctorFilter =
  fun_Alpha :: real
  fun_Beta :: real
  fun_Gamma :: real
  fun_EnhanceType :: Polarity

text \<open>
  The setters and getters of the two sub-filters that the header under study calls follow.
  Their classes are not among the sources; each one reads or writes the one member it is
  named after.
\<close>

text \<open>
  Modelled from the spec: the estimator's \<^verbatim>\<open>SetMaskImage\<close> (class not
  among the sources) stores the optional mask volume.
\<close>

definition Estimation_SetMaskImage ::
  "MaskImage option \<Rightarrow> ParameterEstimationFilter \<Rightarrow> ParameterEstimationFilter" where
  "Estimation_SetMaskImage msk e = e\<lparr>est_MaskImage := msk\<rparr>"

text \<open>
  Modelled from the spec: the estimator's \<^verbatim>\<open>GetMaskImage\<close> (class not
  among the sources) returns the stored mask volume.
\<close>

definition Estimation_GetMaskImage :: "ParameterEstimationFilter \<Rightarrow> MaskImage option" where
  "Estimation_GetMaskImage e = est_MaskImage e"

text \<open>
  Modelled from the spec: the estimator's \<^verbatim>\<open>SetBackgroundValue\<close> (class
  not among the sources) stores the configured background label.
\<close>

definition Estimation_SetBackgroundValue ::
  "MaskPixelType \<Rightarrow> ParameterEstimationFilter \<Rightarrow> ParameterEstimationFilter" where
  "Estimation_SetBackgroundValue back e = e\<lparr>est_BackgroundValue := back\<rparr>"

text \<open>
  Modelled from the spec: the estimator's \<^verbatim>\<open>GetBackgroundValue\<close> (class
  not among the sources) returns the configured background label.
\<close>

definition Estimation_GetBackgroundValue :: "ParameterEstimationFilter \<Rightarrow> MaskPixelType" where
  "Estimation_GetBackgroundValue e = est_BackgroundValue e"

text \<open>
  Modelled from the spec: the estimator's \<^verbatim>\<open>SetParameterSet\<close> (class
  not among the sources) stores the calibration strategy "chosen by the caller before
  estimation".
\<close>

definition Estimation_SetParameterSet ::
  "KrcahImplementationType \<Rightarrow> ParameterEstimationFilter \<Rightarrow> ParameterEstimationFilter" where
  "Estimation_SetParameterSet back e = e\<lparr>est_ParameterSet := back\<rparr>"

text \<open>
  Modelled from the spec: the estimator's \<^verbatim>\<open>GetParameterSet\<close> (class
  not among the sources) returns the chosen calibration strategy.
\<close>

definition Estimation_GetParameterSet ::
  "ParameterEstimationFilter \<Rightarrow> KrcahImplementationType" where
  "Estimation_GetParameterSet e = est_ParameterSet e"

text \<open>
  Modelled from the spec: the estimator's
  \<^verbatim>\<open>SetParameterSetToImplementation\<close> (class not among the sources)
  chooses the "implementation heuristic" strategy.
\<close>

definition Estimation_SetParameterSetToImplementation ::
  "ParameterEstimationFilter \<Rightarrow> ParameterEstimationFilter" where
  "Estimation_SetParameterSetToImplementation e =
     Estimation_SetParameterSet UseImplementationParameters e"

text \<open>
  Modelled from the spec: the estimator's
  \<^verbatim>\<open>SetParameterSetToJournalArticle\<close> (class not among the sources)
  chooses the "journal-article constants" strategy.
\<close>

definition Estimation_SetParameterSetToJournalArticle ::
  "ParameterEstimationFilter \<Rightarrow> ParameterEstimationFilter" where
  "Estimation_SetParameterSetToJournalArticle e =
     Estimation_SetParameterSet UseJournalParameters e"

text \<open>
  Modelled from the spec: the functor filter's \<^verbatim>\<open>GetAlpha\<close> (class not
  among the sources) returns the \<open>\<alpha>\<close> the functor uses.
\<close>

definition Functor_GetAlpha :: "UnaryFunctorFilter \<Rightarrow> real" where
  "Functor_GetAlpha u = fun_Alpha u"

text \<open>
  Modelled from the spec: the functor filter's \<^verbatim>\<open>GetBeta\<close> (class not
  among the sources) returns the \<open>\<beta>\<close> the functor uses.
\<close>

definition Functor_GetBeta :: "UnaryFunctorFilter \<Rightarrow> real" where
  "Functor_GetBeta u = fun_Beta u"

text \<open>
  Modelled from the spec: the functor filter's \<^verbatim>\<open>GetGamma\<close> (class not
  among the sources) returns the \<open>\<gamma>\<close> the functor uses.
\<close>

definition Functor_GetGamma :: "UnaryFunctorFilter \<Rightarrow> real" where
  "Functor_GetGamma u = fun_Gamma u"

text \<open>
  Modelled from the spec: the functor filter's
  \<^verbatim>\<open>SetEnhanceBrightObjects\<close> (class not among the sources) selects the
  polarity "enhance bright structures".
\<close>

definition Functor_SetEnhanceBrightObjects :: "UnaryFunctorFilter \<Rightarrow> UnaryFunctorFilter" where
  "Functor_SetEnhanceBrightObjects u = u\<lparr>fun_EnhanceType := EnhanceBrightObjects\<rparr>"

text \<open>
  Modelled from the spec: the functor filter's
  \<^verbatim>\<open>SetEnhanceDarkObjects\<close> (class not among the sources) selects the
  polarity "enhance dark structures".
\<close>

definition Functor_SetEnhanceDarkObjects :: "UnaryFunctorFilter \<Rightarrow> UnaryFunctorFilter" where
  "Functor_SetEnhanceDarkObjects u = u\<lparr>fun_EnhanceType := EnhanceDarkObjects\<rparr>"

section \<open>KrcahEigenToScalarImageFilter (itkKrcahEigenToScalarImageFilter.h)\<close>

text \<open>
  The class owns two sub-filter objects of different classes, held by the private members
  \<^verbatim>\<open>m_ParameterEstimationFilter\<close> and \<^verbatim>\<open>m_UnaryFunctorFilter\<close>. Every method of the header
  is a one-line forwarder; a \<^verbatim>\<open>void\<close> method returns the updated filter.
\<close>

record KrcahEigenToScalarImageFilter =
  m_ParameterEstimationFilter :: ParameterEstimationFilter
  m_UnaryFunctorFilter :: UnaryFunctorFilter

definition GetEigenValueOrder :: "KrcahEigenToScalarImageFilter \<Rightarrow> EigenValueOrderType" where
  "GetEigenValueOrder this = OrderByMagnitude"

definition SetMaskImage ::
  "MaskImage option \<Rightarrow> KrcahEigenToScalarImageFilter \<Rightarrow> KrcahEigenToScalarImageFilter" where
  "SetMaskImage msk this =
     this\<lparr>m_ParameterEstimationFilter :=
            Estimation_SetMaskImage msk (m_ParameterEstimationFilter this)\<rparr>"

definition GetMaskImage :: "KrcahEigenToScalarImageFilter \<Rightarrow> MaskImage option" where
  "GetMaskImage this = Estimation_GetMaskImage (m_ParameterEstimationFilter this)"

definition SetBackgroundValue ::
  "MaskPixelType \<Rightarrow> KrcahEigenToScalarImageFilter \<Rightarrow> KrcahEigenToScalarImageFilter" where
  "SetBackgroundValue back this =
     this\<lparr>m_ParameterEstimationFilter :=
            Estimation_SetBackgroundValue back (m_ParameterEstimationFilter this)\<rparr>"

definition GetBackgroundValue :: "KrcahEigenToScalarImageFilter \<Rightarrow> MaskPixelType" where
  "GetBackgroundValue this = Estimation_GetBackgroundValue (m_ParameterEstimationFilter this)"

definition SetParameterSet ::
  "KrcahImplementationType \<Rightarrow> KrcahEigenToScalarImageFilter \<Rightarrow> KrcahEigenToScalarImageFilter"
  where
  "SetParameterSet back this =
     this\<lparr>m_ParameterEstimationFilter :=
            Estimation_SetParameterSet back (m_ParameterEstimationFilter this)\<rparr>"

definition GetParameterSet :: "KrcahEigenToScalarImageFilter \<Rightarrow> KrcahImplementationType" where
  "GetParameterSet this = Estimation_GetParameterSet (m_ParameterEstimationFilter this)"

definition SetParameterSetToImplementation ::
  "KrcahEigenToScalarImageFilter \<Rightarrow> KrcahEigenToScalarImageFilter" where
  "SetParameterSetToImplementation this =
     this\<lparr>m_ParameterEstimationFilter :=
            Estimation_SetParameterSetToImplementation (m_ParameterEstimationFilter this)\<rparr>"

definition SetParameterSetToJournalArticle ::
  "KrcahEigenToScalarImageFilter \<Rightarrow> KrcahEigenToScalarImageFilter" where
  "SetParameterSetToJournalArticle this =
     this\<lparr>m_ParameterEstimationFilter :=
            Estimation_SetParameterSetToJournalArticle (m_ParameterEstimationFilter this)\<rparr>"

definition GetAlpha :: "KrcahEigenToScalarImageFilter \<Rightarrow> real" where
  "GetAlpha this = Functor_GetAlpha (m_UnaryFunctorFilter this)"

definition GetBeta :: "KrcahEigenToScalarImageFilter \<Rightarrow> real" where
  "GetBeta this = Functor_GetBeta (m_UnaryFunctorFilter this)"

definition GetGamma :: "KrcahEigenToScalarImageFilter \<Rightarrow> real" where
  "GetGamma this = Functor_GetGamma (m_UnaryFunctorFilter this)"

definition SetEnhanceBrightObjects ::
  "KrcahEigenToScalarImageFilter \<Rightarrow> KrcahEigenToScalarImageFilter" where
  "SetEnhanceBrightObjects this =
     this\<lparr>m_UnaryFunctorFilter := Functor_SetEnhanceBrightObjects (m_UnaryFunctorFilter this)\<rparr>"

definition SetEnhanceDarkObjects ::
  "KrcahEigenToScalarImageFilter \<Rightarrow> KrcahEigenToScalarImageFilter" where
  "SetEnhanceDarkObjects this =
     this\<lparr>m_UnaryFunctorFilter := Functor_SetEnhanceDarkObjects (m_UnaryFunctorFilter this)\<rparr>"

section \<open>The parameter estimator\<close>

datatype error = ConfigurationError

text \<open>
  Modelled from the spec: the estimator's pass (its class is not among the sources). A voxel
  takes part when no mask is set, or when its mask label differs from the configured
  background label ("for each non-background voxel (mask label \<noteq> configured background, or
  unconditionally if no mask)").
\<close>

definition foreground ::
  "MaskImage option \<Rightarrow> MaskPixelType \<Rightarrow> EigenvalueVolume \<Rightarrow> EigenvalueVolume" where
  "foreground msk back vol =
     (case msk of
        None \<Rightarrow> vol
      | Some labels \<Rightarrow> map fst (filter (\<lambda>(v, l). l \<noteq> back) (zip vol labels)))"

text \<open>
  Modelled from the spec: one run of the estimator. A mask on another grid than the
  eigenvalue volume is the spec's configuration error, "reported to the caller before any
  voxel processing begins". The constants are "created fresh by one Estimator run" from
  the scanned voxels and the chosen strategy. Which statistics are accumulated and which
  coefficients turn them into \<open>(\<alpha>, \<beta>, \<gamma>)\<close> the spec leaves open (its section 9), so that
  mapping is the parameter \<open>calibrate\<close>.
\<close>

type_synonym Calibration = "KrcahImplementationType \<Rightarrow> EigenvalueVolume \<Rightarrow> real \<times> real \<times> real"

definition Estimation_Update ::
  "Calibration \<Rightarrow> EigenvalueVolume \<Rightarrow> ParameterEstimationFilter
     \<Rightarrow> error + ParameterEstimationFilter" where
  "Estimation_Update calibrate vol e =
     (if (case est_MaskImage e of None \<Rightarrow> False | Some labels \<Rightarrow> length labels \<noteq> length vol)
      then Inl ConfigurationError
      else
        (case calibrate (est_ParameterSet e)
                (foreground (est_MaskImage e) (est_BackgroundValue e) vol) of
           (a, b, c) \<Rightarrow> Inr (e\<lparr>est_Alpha := a, est_Beta := b, est_Gamma := c\<rparr>)))"

section \<open>The scalar functor\<close>

text \<open>
  Modelled from the spec: the per-voxel functor (its class is not among the sources),
  following the five steps of the spec's section 4.2.

  Step 1, polarity: "if enhancing dark structures, effectively negate the eigenvalues
  relative to the bright-structure convention".
\<close>

definition negate :: "EigenvalueVoxel \<Rightarrow> EigenvalueVoxel" where
  "negate v = (case v of (l1, l2, l3) \<Rightarrow> (- l1, - l2, - l3))"

text \<open>
  Modelled from the spec: step 1 of the functor (class not among the sources); the bright
  polarity keeps the voxel, the dark polarity negates it.
\<close>

definition apply_polarity :: "Polarity \<Rightarrow> EigenvalueVoxel \<Rightarrow> EigenvalueVoxel" where
  "apply_polarity p v =
     (case p of EnhanceBrightObjects \<Rightarrow> v | EnhanceDarkObjects \<Rightarrow> negate v)"

text \<open>
  Modelled from the spec: step 2, the sign gate in the bright-structure convention, on the
  two eigenvalues of largest magnitude. The voxel is ordered by ascending magnitude (a
  precondition that is not checked), so these are the second and the third component. The
  spec's scenarios 2 and 3 fix the sign: \<open>(-1, -10, -10)\<close> passes under the dark polarity and
  is rejected under the bright one. A zero eigenvalue resolves to the neutral output.
\<close>

definition sign_gate :: "EigenvalueVoxel \<Rightarrow> bool" where
  "sign_gate v = (case v of (l1, l2, l3) \<Rightarrow> 0 < l2 \<and> 0 < l3)"

text \<open>Modelled from the spec: the neutral value, "0 (or another documented neutral value)".\<close>

definition neutral :: real where
  "neutral = 0"

text \<open>
  Modelled from the spec: steps 3 to 5. The three "sigmoid-like terms, each controlled by one
  of \<open>\<alpha>\<close>, \<open>\<beta>\<close>, \<open>\<gamma>\<close>" are not given by the spec; they are the parameters of the model. They
  "are multiplied (not added)", and the "final magnitude scaling uses the magnitude of the
  largest eigenvalue".
\<close>

record FunctorTerms =
  term_alpha :: "real \<Rightarrow> EigenvalueVoxel \<Rightarrow> real"
  term_beta :: "real \<Rightarrow> EigenvalueVoxel \<Rightarrow> real"
  term_gamma :: "real \<Rightarrow> EigenvalueVoxel \<Rightarrow> real"

text \<open>
  Modelled from the spec: the functor (class not among the sources), steps 1 to 5 in order:
  polarity, sign gate with the neutral value as the short-circuit, product of the three
  terms, scaling by the magnitude of the largest eigenvalue.
\<close>

definition KrcahEigenToScalarFunctor ::
  "FunctorTerms \<Rightarrow> Polarity \<Rightarrow> real \<Rightarrow> real \<Rightarrow> real \<Rightarrow> EigenvalueVoxel \<Rightarrow> real" where
  "KrcahEigenToScalarFunctor T p \<alpha> \<beta> \<gamma> v =
     (let w = apply_polarity p v in
      if \<not> sign_gate w then neutral
      else term_alpha T \<alpha> w * term_beta T \<beta> w * term_gamma T \<gamma> w * \<bar>snd (snd w)\<bar>)"

text \<open>
  Modelled from the spec: the sign relationship that a polarity requires of the input voxel
  itself (the functor's class is not among the sources). By the spec's scenarios 2 and 3 the
  two eigenvalues of largest magnitude are both negative for dark structures; for bright
  structures, the negated convention, both are positive.
\<close>

definition required_sign :: "Polarity \<Rightarrow> EigenvalueVoxel \<Rightarrow> bool" where
  "required_sign p v =
     (case v of (l1, l2, l3) \<Rightarrow>
        (case p of
           EnhanceBrightObjects \<Rightarrow> 0 < l2 \<and> 0 < l3
         | EnhanceDarkObjects \<Rightarrow> l2 < 0 \<and> l3 < 0))"

text \<open>
  Modelled from the spec: "flipping polarity from bright to dark (or vice versa)".
\<close>

definition flip :: "Polarity \<Rightarrow> Polarity" where
  "flip p = (case p of EnhanceBrightObjects \<Rightarrow> EnhanceDarkObjects
                     | EnhanceDarkObjects \<Rightarrow> EnhanceBrightObjects)"

section \<open>GenerateData\<close>

text \<open>
  Modelled from the spec: \<^verbatim>\<open>GenerateData\<close> is declared in the header ("single threaded since
  we are connecting data") and defined in itkKrcahEigenToScalarImageFilter.hxx, which is not
  among the sources. By the spec's control flow "the Estimator consumes these once to
  produce \<open>(\<alpha>, \<beta>, \<gamma>)\<close>; the Scalar Functor is then evaluated independently at every voxel
  using the fixed \<open>(\<alpha>, \<beta>, \<gamma>)\<close>": the estimation sub-filter runs on the input, its three
  constants are handed to the functor sub-filter, and the functor maps every voxel.
\<close>

definition GenerateData ::
  "Calibration \<Rightarrow> FunctorTerms \<Rightarrow> EigenvalueVolume \<Rightarrow> KrcahEigenToScalarImageFilter
     \<Rightarrow> error + (KrcahEigenToScalarImageFilter \<times> real list)" where
  "GenerateData calibrate T vol this =
     (case Estimation_Update calibrate vol (m_ParameterEstimationFilter this) of
        Inl err \<Rightarrow> Inl err
      | Inr e \<Rightarrow>
          (let u = (m_UnaryFunctorFilter this)
                     \<lparr>fun_Alpha := est_Alpha e, fun_Beta := est_Beta e, fun_Gamma := est_Gamma e\<rparr>
           in Inr (this\<lparr>m_ParameterEstimationFilter := e, m_UnaryFunctorFilter := u\<rparr>,
                   map (KrcahEigenToScalarFunctor T (fun_EnhanceType u)
                          (fun_Alpha u) (fun_Beta u) (fun_Gamma u)) vol)))"

section \<open>The command-line driver (\<^verbatim>\<open>main\<close>)\<close>

text \<open>
  What \<^verbatim>\<open>main\<close> leaves behind: its exit status, the items streamed to \<^verbatim>\<open>std::cout\<close> and
  \<^verbatim>\<open>std::cerr\<close>, the image files written (in order), and the Krcah filter object as it is
  when the multi-scale filter runs. \<^verbatim>\<open>main\<close> catches nothing, so an exception thrown by a
  reader, a filter or a writer ends the program (\<open>Terminated\<close>). The progress lines of the
  observer \<^verbatim>\<open>MyCommand\<close> depend on the progress events of the collaborating filters and are
  not streamed in this model.
\<close>

datatype ExitStatus = EXIT_SUCCESS | EXIT_FAILURE | Terminated | Undefined

datatype Out = Text string | Number int | Array "real list" | Endl

record ('i, 'o) Run =
  status :: ExitStatus
  cout :: "Out list"
  cerr :: "Out list"
  files :: "(string \<times> ('i + 'o)) list"
  krcahFilter :: "KrcahEigenToScalarImageFilter option"

text \<open>
  The collaborators of \<^verbatim>\<open>main\<close>, none of them among the sources: the C library's \<^verbatim>\<open>atoi\<close>
  and \<^verbatim>\<open>atof\<close>, the image reader and writers, the preprocessing filter, the factory method
  \<^verbatim>\<open>KrcahEigenToScalarFilterType::New()\<close> and the multi-scale Hessian filter, which is handed
  the Krcah filter, the sigma array and the preprocessed image. \<open>None\<close> is a thrown
  exception; \<open>CanWrite\<close> tells whether writing to a file name succeeds. \<^verbatim>\<open>atoi\<close> and \<^verbatim>\<open>atof\<close>
  are total: they return a number for every string, as the C library's do for every string
  whose value is in range.
\<close>

record ('i, 'o) Collaborators =
  atoi :: "string \<Rightarrow> int"
  atof :: "string \<Rightarrow> real"
  ReadImage :: "string \<Rightarrow> 'i option"
  Preprocess :: "'i \<Rightarrow> 'i option"
  CanWrite :: "string \<Rightarrow> bool"
  KrcahFilter_New :: KrcahEigenToScalarImageFilter
  MultiScaleHessianEnhancement ::
    "KrcahEigenToScalarImageFilter \<Rightarrow> real list \<Rightarrow> 'i \<Rightarrow> 'o option"

definition tab :: char where
  "tab = CHR 0x09"

definition usage :: "string list \<Rightarrow> Out list" where
  "usage argv =
     [Text ''Usage: '', Endl] @ map Text (take 1 argv) @
     [Text '' <InputFileName> <OutputPreprocessed> <OutputMeasure> '',
      Text '' <SetEnhanceBrightObjects[0,1]> '',
      Text '' <UseImplementationParameters[0,1]> '',
      Text '' <NumberOfSigma> <Sigma1> [<Sigma2> <Sigma3>] '',
      Endl]"

definition banner ::
  "string \<Rightarrow> string \<Rightarrow> string \<Rightarrow> int \<Rightarrow> int \<Rightarrow> int \<Rightarrow> real list \<Rightarrow> Out list" where
  "banner inputFileName outputPreprocessedFileName outputMeasureFileName
          enhanceBrightObjects parameterSetToImplement numberOfSigma sigmaArray =
     [Text ''Read in the following parameters:'', Endl,
      Text (tab # ''InputFilePath:               ''), Text inputFileName, Endl,
      Text (tab # ''OutputPreprocessed:          ''), Text outputPreprocessedFileName, Endl,
      Text (tab # ''OutputMeasure:               ''), Text outputMeasureFileName, Endl] @
     (if enhanceBrightObjects = 1
      then [Text (tab # ''SetEnhanceBrightObjects:     ''),
            Text ''Enhancing bright objects'', Endl]
      else [Text (tab # ''SetEnhanceBrightObjects:     ''),
            Text ''Enhancing dark objects'', Endl]) @
     (if parameterSetToImplement = 1
      then [Text (tab # ''UseImplementationParameters: ''),
            Text ''Using implementation parameters'', Endl]
      else [Text (tab # ''UseImplementationParameters: ''),
            Text ''Using journal article parameter'', Endl]) @
     [Text (tab # ''NumberOfSigma:               ''), Number numberOfSigma, Endl,
      Text (tab # ''Sigmas:                      ''), Array sigmaArray, Endl,
      Endl]"

text \<open>
  \<^verbatim>\<open>main\<close>. With fewer than 8 arguments it prints the usage and fails. Otherwise it reads
  \<^verbatim>\<open>argv[1]\<close> to \<^verbatim>\<open>argv[6]\<close> and then \<^verbatim>\<open>numberOfSigma\<close> sigmas from \<^verbatim>\<open>argv[7]\<close> on. The loop
  \<^verbatim>\<open>for (unsigned int i = 0; i < numberOfSigma; ++i) atof(argv[7+i])\<close> reads past the
  arguments when \<^verbatim>\<open>7 + numberOfSigma > argc\<close> (\<^verbatim>\<open>argv[argc]\<close> is a null pointer), and a negative
  \<^verbatim>\<open>numberOfSigma\<close> is converted to a huge unsigned bound: both are undefined behaviour in
  C++ and the outcome \<open>Undefined\<close> here. After the banner come preprocessing, the writing of
  the preprocessed image, the multi-scale measure with a freshly created Krcah filter, and
  the writing of the measure.
\<close>

definition main :: "('i, 'o) Collaborators \<Rightarrow> string list \<Rightarrow> ('i, 'o) Run" where
  "main E argv =
     (let argc = length argv in
      if argc < 8
      then \<lparr>status = EXIT_FAILURE, cout = [], cerr = usage argv, files = [],
            krcahFilter = None\<rparr>
      else
        let inputFileName = argv ! 1;
            outputPreprocessedFileName = argv ! 2;
            outputMeasureFileName = argv ! 3;
            enhanceBrightObjects = atoi E (argv ! 4);
            parameterSetToImplement = atoi E (argv ! 5);
            numberOfSigma = atoi E (argv ! 6)
        in
        if numberOfSigma < 0 \<or> int argc < 7 + numberOfSigma
        then \<lparr>status = Undefined, cout = [], cerr = [], files = [], krcahFilter = None\<rparr>
        else
          let sigmaArray = map (atof E) (take (nat numberOfSigma) (drop 7 argv));
              out1 = banner inputFileName outputPreprocessedFileName outputMeasureFileName
                       enhanceBrightObjects parameterSetToImplement numberOfSigma sigmaArray
                     @ [Text ''Running preprocessing...'', Endl]
          in
          case Option.bind (ReadImage E inputFileName) (Preprocess E) of
            None \<Rightarrow>
              \<lparr>status = Terminated, cout = out1, cerr = [], files = [], krcahFilter = None\<rparr>
          | Some preprocessed \<Rightarrow>
              let out2 = out1 @ [Text ''Writing out result'', Endl] in
              if \<not> CanWrite E outputPreprocessedFileName
              then \<lparr>status = Terminated, cout = out2, cerr = [], files = [],
                    krcahFilter = None\<rparr>
              else
                let files1 = [(outputPreprocessedFileName, Inl preprocessed)];
                    krcah = KrcahFilter_New E;
                    out3 = out2 @ [Text ''Running multiScaleFilter...'', Endl]
                in
                (case MultiScaleHessianEnhancement E krcah sigmaArray preprocessed of
                  None \<Rightarrow>
                    \<lparr>status = Terminated, cout = out3, cerr = [], files = files1,
                     krcahFilter = Some krcah\<rparr>
                | Some measureOut \<Rightarrow>
                    let out4 = out3 @ [Text ''Writing out measure'', Endl] in
                    if \<not> CanWrite E outputMeasureFileName
                    then \<lparr>status = Terminated, cout = out4, cerr = [], files = files1,
                          krcahFilter = Some krcah\<rparr>
                    else \<lparr>status = EXIT_SUCCESS, cout = out4, cerr = [],
                          files = files1 @ [(outputMeasureFileName, Inr measureOut)],
                          krcahFilter = Some krcah\<rparr>))"

text \<open>
  The banner with its two flag-dependent items (positions 12 and 15 of the stream, the texts
  printed for \<^verbatim>\<open>argv[4]\<close> and \<^verbatim>\<open>argv[5]\<close>) overwritten by \<open>x\<close> and \<open>y\<close>.
\<close>

definition banner_masked ::
  "string \<Rightarrow> string \<Rightarrow> string \<Rightarrow> int \<Rightarrow> real list \<Rightarrow> Out \<Rightarrow> Out \<Rightarrow> Out list" where
  "banner_masked i p m n s x y = (banner i p m 0 0 n s)[12 := x, 15 := y]"

section \<open>Concrete inputs\<close>

text \<open>
  A filter with a two-voxel volume whose first voxel is masked out, a calibration that
  depends on the strategy and on the scanned voxels, and functor terms that are constantly
  1; they are the inputs at which the theorems below are instantiated.
\<close>

definition unit_terms :: FunctorTerms where
  "unit_terms = \<lparr>term_alpha = (\<lambda>a v. 1), term_beta = (\<lambda>b v. 1), term_gamma = (\<lambda>c v. 1)\<rparr>"

definition count_calibration :: Calibration where
  "count_calibration s vol =
     (case s of
        UseImplementationParameters \<Rightarrow> (real (length vol), 2, 3)
      | UseJournalParameters \<Rightarrow> (real (length vol), 4, 5))"

definition example_volume :: EigenvalueVolume where
  "example_volume = [(0, 0, 0), (- 1, - 10, - 10)]"

definition example_estimator :: ParameterEstimationFilter where
  "example_estimator =
     \<lparr>est_MaskImage = Some [0, 1], est_BackgroundValue = 0,
      est_ParameterSet = UseImplementationParameters,
      est_Alpha = 0, est_Beta = 0, est_Gamma = 0\<rparr>"

definition example_filter :: KrcahEigenToScalarImageFilter where
  "example_filter =
     \<lparr>m_ParameterEstimationFilter = example_estimator,
      m_UnaryFunctorFilter =
        \<lparr>fun_Alpha = 0, fun_Beta = 0, fun_Gamma = 0, fun_EnhanceType = EnhanceDarkObjects\<rparr>\<rparr>"

definition example_estimator_done :: ParameterEstimationFilter where
  "example_estimator_done = example_estimator\<lparr>est_Alpha := 1, est_Beta := 2, est_Gamma := 3\<rparr>"

definition example_filter_done :: KrcahEigenToScalarImageFilter where
  "example_filter_done =
     \<lparr>m_ParameterEstimationFilter = example_estimator_done,
      m_UnaryFunctorFilter =
        \<lparr>fun_Alpha = 1, fun_Beta = 2, fun_Gamma = 3, fun_EnhanceType = EnhanceDarkObjects\<rparr>\<rparr>"

text \<open>
  Collaborators for a concrete run of the driver: images are numbers, the reader knows one
  file, preprocessing adds 1, and the multi-scale filter returns the sum of the sigmas, the
  \<open>\<gamma>\<close> of the Krcah filter it was handed and the image. The two conversions are tables
  that agree with the C library's on the strings of \<open>example_argv\<close>: \<^verbatim>\<open>atoi\<close> on "0", "1" and
  "2", \<^verbatim>\<open>atof\<close> on "0.5" and "3".
\<close>

definition example_collaborators :: "(nat, real) Collaborators" where
  "example_collaborators =
     \<lparr>atoi = (\<lambda>s. if s = ''1'' then 1 else if s = ''2'' then 2 else 0),
      atof = (\<lambda>s. if s = ''0.5'' then 1 / 2 else if s = ''3'' then 3 else 0),
      ReadImage = (\<lambda>name. if name = ''in.nii'' then Some 5 else None),
      Preprocess = (\<lambda>i. Some (i + 1)),
      CanWrite = (\<lambda>name. True),
      KrcahFilter_New = example_filter_done,
      MultiScaleHessianEnhancement =
        (\<lambda>k sigmas i. Some (sum_list sigmas + GetGamma k + real i))\<rparr>"

definition example_argv :: "string list" where
  "example_argv =
     [''BoneEnhancement'', ''in.nii'', ''pre.nii'', ''out.nii'', ''1'', ''0'', ''2'',
      ''0.5'', ''3'']"

section \<open>Properties of the filter's interface\<close>

text \<open>
  C4. \<^verbatim>\<open>GetEigenValueOrder\<close> returns \<^verbatim>\<open>OrderByMagnitude\<close> whatever the state of the filter: the
  filter declares that it consumes eigenvalues ordered by magnitude. Nothing in the header
  inspects the order of a voxel.
\<close>

theorem GetEigenValueOrder_always_OrderByMagnitude:
  "GetEigenValueOrder this = OrderByMagnitude"
  by (simp add: GetEigenValueOrder_def)

text \<open>
  C9. Frame of the setters. \<^verbatim>\<open>SetMaskImage\<close>, \<^verbatim>\<open>SetBackgroundValue\<close>, \<^verbatim>\<open>SetParameterSet\<close>,
  \<^verbatim>\<open>SetParameterSetToImplementation\<close> and \<^verbatim>\<open>SetParameterSetToJournalArticle\<close> apply the
  operation of the same name to the parameter-estimation sub-filter and leave the unary
  functor sub-filter as it was; \<^verbatim>\<open>SetEnhanceBrightObjects\<close> and \<^verbatim>\<open>SetEnhanceDarkObjects\<close> apply
  theirs to the unary functor sub-filter and leave the parameter-estimation sub-filter as it
  was.
\<close>

theorem setters_frame:
  "m_UnaryFunctorFilter (SetMaskImage msk this) = m_UnaryFunctorFilter this
   \<and> m_ParameterEstimationFilter (SetMaskImage msk this)
       = Estimation_SetMaskImage msk (m_ParameterEstimationFilter this)
   \<and> m_UnaryFunctorFilter (SetBackgroundValue back this) = m_UnaryFunctorFilter this
   \<and> m_ParameterEstimationFilter (SetBackgroundValue back this)
       = Estimation_SetBackgroundValue back (m_ParameterEstimationFilter this)
   \<and> m_UnaryFunctorFilter (SetParameterSet ps this) = m_UnaryFunctorFilter this
   \<and> m_ParameterEstimationFilter (SetParameterSet ps this)
       = Estimation_SetParameterSet ps (m_ParameterEstimationFilter this)
   \<and> m_UnaryFunctorFilter (SetParameterSetToImplementation this) = m_UnaryFunctorFilter this
   \<and> m_ParameterEstimationFilter (SetParameterSetToImplementation this)
       = Estimation_SetParameterSetToImplementation (m_ParameterEstimationFilter this)
   \<and> m_UnaryFunctorFilter (SetParameterSetToJournalArticle this) = m_UnaryFunctorFilter this
   \<and> m_ParameterEstimationFilter (SetParameterSetToJournalArticle this)
       = Estimation_SetParameterSetToJournalArticle (m_ParameterEstimationFilter this)
   \<and> m_ParameterEstimationFilter (SetEnhanceBrightObjects this)
       = m_ParameterEstimationFilter this
   \<and> m_UnaryFunctorFilter (SetEnhanceBrightObjects this)
       = Functor_SetEnhanceBrightObjects (m_UnaryFunctorFilter this)
   \<and> m_ParameterEstimationFilter (SetEnhanceDarkObjects this)
       = m_ParameterEstimationFilter this
   \<and> m_UnaryFunctorFilter (SetEnhanceDarkObjects this)
       = Functor_SetEnhanceDarkObjects (m_UnaryFunctorFilter this)"
  by (simp add: SetMaskImage_def SetBackgroundValue_def SetParameterSet_def
        SetParameterSetToImplementation_def SetParameterSetToJournalArticle_def
        SetEnhanceBrightObjects_def SetEnhanceDarkObjects_def)

text \<open>
  The setters are not idle: a polarity set through the filter is the polarity of the functor
  sub-filter, and a background value set through the filter is read back from it.
\<close>

lemma SetEnhanceDarkObjects_sets:
  "fun_EnhanceType (m_UnaryFunctorFilter (SetEnhanceDarkObjects this)) = EnhanceDarkObjects
   \<and> fun_EnhanceType (m_UnaryFunctorFilter (SetEnhanceBrightObjects this))
       = EnhanceBrightObjects"
  by (simp add: SetEnhanceDarkObjects_def SetEnhanceBrightObjects_def
        Functor_SetEnhanceDarkObjects_def Functor_SetEnhanceBrightObjects_def)

lemma GetBackgroundValue_SetBackgroundValue:
  "GetBackgroundValue (SetBackgroundValue back this) = back"
  by (simp add: GetBackgroundValue_def SetBackgroundValue_def
        Estimation_GetBackgroundValue_def Estimation_SetBackgroundValue_def)

section \<open>Properties of the scalar functor\<close>

lemma sign_gate_apply_polarity: "sign_gate (apply_polarity p v) = required_sign p v"
  by (cases p; cases v)
    (simp_all add: apply_polarity_def sign_gate_def required_sign_def negate_def)

lemma apply_polarity_flip_negate: "apply_polarity (flip p) (negate v) = apply_polarity p v"
  by (cases p; cases v) (simp_all add: apply_polarity_def flip_def negate_def)

text \<open>
  C2. Sign gating: when the two eigenvalues of largest magnitude (the second and third
  component of a voxel ordered by magnitude) do not have the sign the polarity requires, the
  functor returns the neutral value, for every \<open>\<alpha>\<close>, \<open>\<beta>\<close>, \<open>\<gamma>\<close> (non-negative or not) and
  whatever the three terms are.
\<close>

theorem sign_gating:
  "\<not> required_sign p v \<Longrightarrow> KrcahEigenToScalarFunctor T p \<alpha> \<beta> \<gamma> v = neutral"
  by (simp add: KrcahEigenToScalarFunctor_def sign_gate_apply_polarity)

theorem sign_gating_witness:
  "\<not> required_sign EnhanceBrightObjects (- 1, - 10, - 10)
   \<and> KrcahEigenToScalarFunctor unit_terms EnhanceBrightObjects 0 0 0 (- 1, - 10, - 10) = neutral"
  using sign_gating [of EnhanceBrightObjects "(- 1, - 10, - 10)" unit_terms 0 0 0]
  by (simp add: required_sign_def)

text \<open>The gate is open for the same voxel under the dark polarity (the spec's scenario 2).\<close>

lemma functor_dark_plate:
  "KrcahEigenToScalarFunctor unit_terms EnhanceDarkObjects \<alpha> \<beta> \<gamma> (- 1, - 10, - 10) = 10"
  by (simp add: KrcahEigenToScalarFunctor_def apply_polarity_def negate_def sign_gate_def
        unit_terms_def)

text \<open>
  C7. Polarity symmetry: the functor on the negated voxel under the flipped polarity returns
  what it returns on the voxel under the polarity itself, for every voxel, both polarities
  and every \<open>\<alpha>\<close>, \<open>\<beta>\<close>, \<open>\<gamma>\<close>.
\<close>

theorem polarity_symmetry:
  "KrcahEigenToScalarFunctor T (flip p) \<alpha> \<beta> \<gamma> (negate v)
     = KrcahEigenToScalarFunctor T p \<alpha> \<beta> \<gamma> v"
  by (simp add: KrcahEigenToScalarFunctor_def apply_polarity_flip_negate)

section \<open>Properties of the estimation run\<close>

lemma example_run:
  "GenerateData count_calibration unit_terms example_volume example_filter
     = Inr (example_filter_done, [0, 10])"
  by (simp add: GenerateData_def Estimation_Update_def example_filter_def example_estimator_def
        example_filter_done_def example_estimator_done_def
        example_volume_def count_calibration_def foreground_def KrcahEigenToScalarFunctor_def
        apply_polarity_def negate_def sign_gate_def neutral_def unit_terms_def)

text \<open>
  C3. After a run of the filter (\<^verbatim>\<open>GenerateData\<close>, which runs the estimator once), the
  accessors \<^verbatim>\<open>GetAlpha\<close>, \<^verbatim>\<open>GetBeta\<close> and \<^verbatim>\<open>GetGamma\<close>, which read the unary functor
  sub-filter, return the three constants that this run of the parameter-estimation
  sub-filter computed: the calibration of the scanned voxels under the configured
  strategy, which is also what the estimation sub-filter holds afterwards.
\<close>

theorem accessors_after_GenerateData:
  assumes "GenerateData calibrate T vol this = Inr (this', out)"
  shows "Estimation_Update calibrate vol (m_ParameterEstimationFilter this)
           = Inr (m_ParameterEstimationFilter this')
         \<and> (GetAlpha this', GetBeta this', GetGamma this')
             = calibrate (GetParameterSet this)
                 (foreground (GetMaskImage this) (GetBackgroundValue this) vol)
         \<and> GetAlpha this' = est_Alpha (m_ParameterEstimationFilter this')
         \<and> GetBeta this' = est_Beta (m_ParameterEstimationFilter this')
         \<and> GetGamma this' = est_Gamma (m_ParameterEstimationFilter this')"
  using assms
  by (auto simp: GenerateData_def Estimation_Update_def GetAlpha_def GetBeta_def GetGamma_def
        Functor_GetAlpha_def Functor_GetBeta_def Functor_GetGamma_def GetParameterSet_def
        GetMaskImage_def GetBackgroundValue_def Estimation_GetParameterSet_def
        Estimation_GetMaskImage_def Estimation_GetBackgroundValue_def Let_def
        split: sum.splits if_splits prod.splits option.splits)

theorem accessors_after_GenerateData_witness:
  "GenerateData count_calibration unit_terms example_volume example_filter
     = Inr (example_filter_done, [0, 10])
   \<and> Estimation_Update count_calibration example_volume
        (m_ParameterEstimationFilter example_filter)
       = Inr (m_ParameterEstimationFilter example_filter_done)
   \<and> (GetAlpha example_filter_done, GetBeta example_filter_done, GetGamma example_filter_done)
       = (1, 2, 3)"
  using accessors_after_GenerateData [OF example_run] example_run
  by (simp add: example_filter_def example_estimator_def example_volume_def foreground_def
        count_calibration_def GetParameterSet_def GetMaskImage_def GetBackgroundValue_def
        Estimation_GetParameterSet_def Estimation_GetMaskImage_def
        Estimation_GetBackgroundValue_def)

text \<open>Before any run the accessors return what the functor sub-filter holds, here 0.\<close>

lemma accessors_before_run:
  "(GetAlpha example_filter, GetBeta example_filter, GetGamma example_filter) = (0, 0, 0)"
  by (simp add: example_filter_def GetAlpha_def GetBeta_def GetGamma_def Functor_GetAlpha_def
        Functor_GetBeta_def Functor_GetGamma_def)

section \<open>Properties of the command-line driver\<close>

lemma banner_flags:
  "(banner i p m e q n s @ rest)[12 := x, 15 := y] = banner_masked i p m n s x y @ rest"
  by (simp add: banner_def banner_masked_def)

lemma main_files:
  "files (main E (argv[4 := a, 5 := b])) = files (main E argv)"
  by (simp add: main_def Let_def split: option.splits)

lemma main_status:
  "status (main E (argv[4 := a, 5 := b])) = status (main E argv)"
  by (simp add: main_def Let_def split: option.splits)

lemma main_cerr:
  "cerr (main E (argv[4 := a, 5 := b])) = cerr (main E argv)"
  by (simp add: main_def Let_def usage_def split: option.splits)

lemma main_krcahFilter:
  "krcahFilter (main E (argv[4 := a, 5 := b])) = krcahFilter (main E argv)"
  by (simp add: main_def Let_def split: option.splits)

lemma main_krcahFilter_New:
  "krcahFilter (main E argv) = None \<or> krcahFilter (main E argv) = Some (KrcahFilter_New E)"
  by (simp add: main_def Let_def split: option.splits)

lemma main_cout:
  "(cout (main E (argv[4 := a, 5 := b])))[12 := x, 15 := y]
     = (cout (main E argv))[12 := x, 15 := y]"
  by (simp add: main_def Let_def banner_flags split: option.splits)

text \<open>
  C10. The command line with \<^verbatim>\<open>argv[4]\<close> and \<^verbatim>\<open>argv[5]\<close> replaced by any other strings (every
  command line that differs from \<open>argv\<close> in these two arguments only is of this form) writes
  the same files with the same contents, ends with the same status and the same error
  stream, and runs the multi-scale filter with the same Krcah filter, which is the freshly
  created one: no setter is applied to it. The standard output differs at most in the two
  banner items printed for the two flags.
\<close>

theorem main_ignores_flags:
  "files (main E (argv[4 := a, 5 := b])) = files (main E argv)
   \<and> status (main E (argv[4 := a, 5 := b])) = status (main E argv)
   \<and> cerr (main E (argv[4 := a, 5 := b])) = cerr (main E argv)
   \<and> krcahFilter (main E (argv[4 := a, 5 := b])) = krcahFilter (main E argv)
   \<and> (krcahFilter (main E argv) = None
        \<or> krcahFilter (main E argv) = Some (KrcahFilter_New E))
   \<and> (cout (main E (argv[4 := a, 5 := b])))[12 := x, 15 := y]
       = (cout (main E argv))[12 := x, 15 := y]"
  using main_files [of E argv a b] main_status [of E argv a b] main_cerr [of E argv a b]
    main_krcahFilter [of E argv a b] main_krcahFilter_New [of E argv]
    main_cout [of E argv a b x y]
  by blast

text \<open>The two flags are parsed and shown: the banner names the polarity and the strategy.\<close>

lemma banner_shows_flags:
  "banner i p m 1 0 n s ! 12 = Text ''Enhancing bright objects''
   \<and> banner i p m 0 0 n s ! 12 = Text ''Enhancing dark objects''
   \<and> banner i p m 0 1 n s ! 15 = Text ''Using implementation parameters''
   \<and> banner i p m 0 0 n s ! 15 = Text ''Using journal article parameter''"
  by (simp add: banner_def)

text \<open>
  A complete run: with the sigmas 0.5 and 3 the driver writes the preprocessed image and the
  measure (0.5 + 3 from the sigmas, 3 from the filter, 6 from the image) and succeeds.
\<close>

lemma main_example:
  "files (main example_collaborators example_argv)
     = [(''pre.nii'', Inl 6), (''out.nii'', Inr (25 / 2))]
   \<and> status (main example_collaborators example_argv) = EXIT_SUCCESS"
  by (simp add: main_def example_collaborators_def example_argv_def Let_def
        example_filter_done_def GetGamma_def Functor_GetGamma_def)

lemma main_usage:
  "status (main E [''BoneEnhancement'', ''in.nii'']) = EXIT_FAILURE
   \<and> files (main E [''BoneEnhancement'', ''in.nii'']) = []"
  by (simp add: main_def)

end
